theory Spec2Isabelle
  imports Main
begin

section \<open>Python strings\<close>

text \<open>
  A Python \<open>str\<close> is a sequence of Unicode code points, so it is modelled as a list of
  code point numbers rather than as a list of bytes. \<open>py\<close> turns an ASCII literal
  into that representation; code points beyond ASCII are written as numbers.
\<close>

type_synonym codepoint = nat
type_synonym pystr = "codepoint list"

definition py :: "string \<Rightarrow> pystr" where
  "py s = map of_char s"

text \<open>
  \<open>str.strip()\<close> without argument removes the characters for which the interpreter's
  whitespace test holds: U+0009..U+000D, U+001C..U+0020, U+0085, U+00A0, U+1680,
  U+2000..U+200A, U+2028, U+2029, U+202F, U+205F and U+3000.
\<close>

definition isspace :: "codepoint \<Rightarrow> bool" where
  "isspace c =
     ((0x09 \<le> c \<and> c \<le> 0x0D) \<or> (0x1C \<le> c \<and> c \<le> 0x20) \<or> c = 0x85 \<or> c = 0xA0 \<or>
      c = 0x1680 \<or> (0x2000 \<le> c \<and> c \<le> 0x200A) \<or> c = 0x2028 \<or> c = 0x2029 \<or>
      c = 0x202F \<or> c = 0x205F \<or> c = 0x3000)"

definition strip :: "pystr \<Rightarrow> pystr" where
  "strip s = rev (dropWhile isspace (rev (dropWhile isspace s)))"

text \<open>
  \<open>str.lower()\<close> walks over the string and replaces the character at each index by its
  lowercase expansion. For ASCII that is the letter shifted by 32; whitespace characters
  have no case and stay. The expansions of all other code points come from the
  interpreter's Unicode tables, which are no part of this program: they are the parameter
  \<open>db\<close>, which gets the whole string and the index (the expansion of a Greek capital
  sigma depends on its neighbours, and one character may expand to several).
\<close>

type_synonym casing = "pystr \<Rightarrow> nat \<Rightarrow> pystr"

definition ascii_lower :: "codepoint \<Rightarrow> codepoint" where
  "ascii_lower c = (if 0x41 \<le> c \<and> c \<le> 0x5A then c + 0x20 else c)"

definition lower_at :: "casing \<Rightarrow> pystr \<Rightarrow> nat \<Rightarrow> codepoint \<Rightarrow> pystr" where
  "lower_at db s i c =
     (if c < 0x80 then [ascii_lower c] else if isspace c then [c] else db s i)"

definition lower :: "casing \<Rightarrow> pystr \<Rightarrow> pystr" where
  "lower db s = concat (map (\<lambda>(i, c). lower_at db s i c) (enumerate 0 s))"

text \<open>
  A table with no entry beyond ASCII, and one that knows the Kelvin sign U+212A, whose
  lowercase is the ASCII letter k. They instantiate \<open>db\<close> at concrete inputs.
\<close>

definition no_casing :: casing where
  "no_casing s i = [s ! i]"

definition kelvin_casing :: casing where
  "kelvin_casing s i = (if s ! i = 0x212A then [0x6B] else [s ! i])"

section \<open>Exceptions and standard output\<close>

text \<open>
  An exception is a value. \<open>print\<close> writes to standard output and can fail: with
  \<open>UnicodeEncodeError\<close> for a text the stream's encoding cannot represent, with
  \<open>OSError\<close> when the stream is closed or broken. Standard output belongs to the
  environment, so it is a parameter: given the state of the world and the text, it tells
  whether the write raises, and gives the world after it.
\<close>

datatype exn = EOFError | KeyboardInterrupt | UnicodeEncodeError | OSError | OtherError pystr

type_synonym 'w printer = "'w \<Rightarrow> pystr \<Rightarrow> exn option \<times> 'w"

text \<open>
  Two streams to run the program on. The first encodes to UTF-8 and refuses surrogate
  code points, as the interpreter's default stream does. The second is a pipe whose
  reader goes away: the world is the number of writes that still succeed.
\<close>

definition utf8_stdout :: "'w printer" where
  "utf8_stdout w s =
     (if list_ex (\<lambda>c. 0xD800 \<le> c \<and> c \<le> 0xDFFF) s then Some UnicodeEncodeError else None, w)"

definition pipe_stdout :: "nat printer" where
  "pipe_stdout w s = (if w = 0 then (Some OSError, 0) else (None, w - 1))"

section \<open>The local tools\<close>


definition say_goodbye :: "'w printer \<Rightarrow> 'w \<Rightarrow> (exn + pystr) \<times> 'w" where
  "say_goodbye stdout w =
     (case stdout w (py ''--- Tool: say_goodbye called ---'') of
        (Some e, w') \<Rightarrow> (Inl e, w')
      | (None, w') \<Rightarrow> (Inr (py ''Goodbye! Have a great day.''), w'))"

text \<open>
  The dict that \<open>get_weather\<close> returns is an association list in the order of the
  literal; \<open>map_of\<close> reads a field. The report holds the two code points U+00C2 and
  U+00B0 between \<open>25\<close> and \<open>C\<close>, as the source file does; 0x27 is the apostrophe.
\<close>

type_synonym pydict = "(pystr \<times> pystr) list"

definition get_weather :: "casing \<Rightarrow> pystr \<Rightarrow> pydict" where
  "get_weather db city =
     (if lower db city = py ''new york''
      then [(py ''status'', py ''success''),
            (py ''report'', py ''The weather in New York is sunny at 25'' @ [0xC2, 0xB0] @ py ''C.'')]
      else [(py ''status'', py ''error''),
            (py ''error_message'',
             py ''Weather for '' @ [0x27] @ city @ [0x27] @ py '' not available.'')])"

section \<open>The flight-search agent\<close>

text \<open>
  \<open>os.getenv\<close> reads the process environment, a map from names to values, as it is
  when \<open>create_flight_search_agent\<close> runs (after \<open>load_dotenv\<close>). With one argument it
  returns \<open>None\<close> for an unset name, with two the given default.
\<close>

type_synonym environ = "pystr \<rightharpoonup> pystr"

definition getenv :: "environ \<Rightarrow> pystr \<Rightarrow> pystr option" where
  "getenv environ key = environ key"

definition getenv_default :: "environ \<Rightarrow> pystr \<Rightarrow> pystr \<Rightarrow> pystr" where
  "getenv_default environ key dflt =
     (case environ key of None \<Rightarrow> dflt | Some v \<Rightarrow> v)"

record server_params =
  command :: pystr
  args :: "pystr list"
  env :: "(pystr \<times> pystr option) list"

record 'tool llm_agent =
  model :: pystr
  name :: pystr
  instruction :: pystr
  tools :: "'tool list"

text \<open>
  \<open>MCPToolset.from_server\<close> belongs to the framework: it starts the subprocess and either
  raises or returns the tools and the exit stack. It is a parameter of the model.
\<close>

definition create_flight_search_agent ::
  "environ \<Rightarrow> (server_params \<Rightarrow> exn + 'tool list \<times> 'stack) \<Rightarrow> exn + 'tool llm_agent \<times> 'stack"
where
  "create_flight_search_agent environ from_server =
     (let params = \<lparr>command = py ''mcp-flight-search'',
                     args = [py ''--connection_type'', py ''stdio''],
                     env = [(py ''SERP_API_KEY'', getenv environ (py ''SERP_API_KEY''))]\<rparr>
      in case from_server params of
           Inl e \<Rightarrow> Inl e
         | Inr (mcp_tools, exit_stack) \<Rightarrow>
             Inr (\<lparr>model = getenv_default environ (py ''GEMINI_MODEL'') (py ''gemini-2.5-pro-exp-03-25''),
                   name = py ''flight_search_agent'',
                   instruction =
                     py ''Help the user search for flights using the available tools. '' @
                     py ''If no return date is specified, treat it as a one-way trip.'',
                   tools = mcp_tools\<rparr>,
                  exit_stack))"

section \<open>The console loop\<close>

text \<open>
  The program's effects are recorded as a trace of the calls it makes. A computation
  takes the world and gives its trace, how it ended (\<open>None\<close> when it ran to its end,
  \<open>Some e\<close> when it raised \<open>e\<close>) and the world after it.
\<close>

record content =
  role :: pystr
  parts :: "pystr list"

record session =
  session_id :: pystr
  user_id :: pystr

datatype effect =
    Print pystr
  | Input pystr
  | Run pystr pystr content
  | Aclose

type_synonym 'w comp = "'w \<Rightarrow> (effect list \<times> exn option) \<times> 'w"

definition emit :: "effect list \<Rightarrow> exn option \<Rightarrow> 'w comp" where
  "emit tr r w = ((tr, r), w)"

definition print :: "'w printer \<Rightarrow> pystr \<Rightarrow> 'w comp" where
  "print stdout s w = (case stdout w s of (r, w') \<Rightarrow> (([Print s], r), w'))"

definition seq :: "'w comp \<Rightarrow> 'w comp \<Rightarrow> 'w comp" where
  "seq a b w =
     (case a w of
        ((tr, Some e), w') \<Rightarrow> ((tr, Some e), w')
      | ((tr, None), w') \<Rightarrow> (case b w' of ((tr', r), w'') \<Rightarrow> ((tr @ tr', r), w'')))"

text \<open>
  \<open>try: body finally: handler\<close> runs the handler however the body ended; an exception of
  the handler replaces the one of the body.
\<close>

definition try_finally :: "'w comp \<Rightarrow> 'w comp \<Rightarrow> 'w comp" where
  "try_finally body handler w =
     (case body w of ((tr, r), w') \<Rightarrow>
        (case handler w' of
           ((tr', Some e), w'') \<Rightarrow> ((tr @ tr', Some e), w'')
         | ((tr', None), w'') \<Rightarrow> ((tr @ tr', r), w'')))"

definition exit_requested :: "casing \<Rightarrow> pystr \<Rightarrow> bool" where
  "exit_requested db user_input =
     (lower db (strip user_input) \<in> set [py ''exit'', py ''quit''])"

text \<open>
  The runner belongs to the framework. A call gets the session's identifiers and the
  message; it yields events, may raise after them, and changes the world. An event is
  only ever printed, so it is represented by the text that \<open>print\<close> writes for it. The
  \<open>for\<close> loop prints the events in turn and is left by the first \<open>print\<close> that raises.
\<close>

type_synonym 'w runner = "'w \<Rightarrow> pystr \<Rightarrow> pystr \<Rightarrow> content \<Rightarrow> pystr list \<times> exn option \<times> 'w"

fun print_events :: "'w printer \<Rightarrow> pystr list \<Rightarrow> 'w comp" where
  "print_events stdout [] = emit [] None"
| "print_events stdout (evt # events) = seq (print stdout evt) (print_events stdout events)"

definition run_and_print :: "'w printer \<Rightarrow> 'w runner \<Rightarrow> session \<Rightarrow> content \<Rightarrow> 'w comp" where
  "run_and_print stdout runner sess new_message w =
     (case runner w (session_id sess) (user_id sess) new_message of
        (events, raised, w') \<Rightarrow>
          seq (emit [Run (session_id sess) (user_id sess) new_message] None)
            (seq (print_events stdout events) (emit [] raised)) w')"

text \<open>
  Standard input is the list of what the successive calls of \<open>input\<close> give: a line, or an
  exception such as \<open>KeyboardInterrupt\<close>; at its end \<open>input\<close> raises \<open>EOFError\<close>.
  The loop is left by \<open>break\<close> (it then ran to its end) or by an exception.
\<close>

fun main_loop ::
  "casing \<Rightarrow> 'w printer \<Rightarrow> 'w runner \<Rightarrow> session \<Rightarrow> (exn + pystr) list \<Rightarrow> 'w comp"
where
  "main_loop db stdout runner sess [] = emit [Input (py ''User: '')] (Some EOFError)"
| "main_loop db stdout runner sess (Inl e # rest) = emit [Input (py ''User: '')] (Some e)"
| "main_loop db stdout runner sess (Inr user_input # rest) =
     seq (emit [Input (py ''User: '')] None)
       (if exit_requested db user_input then emit [] None
        else seq (run_and_print stdout runner sess \<lparr>role = py ''user'', parts = [user_input]\<rparr>)
               (main_loop db stdout runner sess rest))"

text \<open>
  The \<open>__main__\<close> block. \<open>aclose\<close> is the awaited teardown of the exit stack: it may
  raise, and changes the world.
\<close>

definition await_aclose :: "('w \<Rightarrow> exn option \<times> 'w) \<Rightarrow> 'w comp" where
  "await_aclose aclose w = (case aclose w of (r, w') \<Rightarrow> (([Aclose], r), w'))"

definition main ::
  "casing \<Rightarrow> 'w printer \<Rightarrow> 'w runner \<Rightarrow> session \<Rightarrow> ('w \<Rightarrow> exn option \<times> 'w) \<Rightarrow>
   (exn + pystr) list \<Rightarrow> 'w comp"
where
  "main db stdout runner sess aclose stdin =
     seq (print stdout
            (py ''Multi-Agent Flight Search App Type '' @ [0x27] @ py ''exit'' @ [0x27] @ py '' to quit.''))
       (try_finally (main_loop db stdout runner sess stdin)
          (seq (print stdout (py ''Shutting down MCP connection...''))
            (seq (await_aclose aclose)
               (print stdout (py ''Shutdown complete.'')))))"

text \<open>
  Two runners to run the loop on: one answers every message with the message's text as
  its only event, the other raises on every message. And a teardown that succeeds.
\<close>

definition echo_runner :: "'w runner" where
  "echo_runner w sid uid msg = (parts msg, None, w)"

definition failing_runner :: "'w runner" where
  "failing_runner w sid uid msg = ([], Some (OtherError (py ''model unavailable'')), w)"

definition aclose_ok :: "'w \<Rightarrow> exn option \<times> 'w" where
  "aclose_ok w = (None, w)"

section \<open>Auxiliary facts about strings\<close>

lemma lower_ascii_New_York: "lower db (py ''New York'') = py ''new york''"
  by (simp add: lower_def lower_at_def ascii_lower_def py_def)

lemma lower_ascii_new_york: "lower db (py ''new york'') = py ''new york''"
  by (simp add: lower_def lower_at_def ascii_lower_def py_def)

lemma isspace_lower_at: "isspace c \<Longrightarrow> lower_at db s i c = [c]"
  by (auto simp: lower_at_def isspace_def ascii_lower_def)

lemma lower_Cons_space:
  "isspace c \<Longrightarrow> \<exists>t. lower db (c # s) = c # t"
  by (simp add: lower_def isspace_lower_at)

lemma lower_snoc_space:
  "isspace c \<Longrightarrow> \<exists>t. lower db (s @ [c]) = t @ [c]"
  by (simp add: lower_def enumerate_append_eq isspace_lower_at)

lemma lower_leading_space:
  assumes "city \<noteq> []" "isspace (hd city)"
  shows "lower db city \<noteq> py ''new york''"
proof -
  from assms obtain c s where city: "city = c # s" and c: "isspace c"
    by (cases city) auto
  from lower_Cons_space [OF c] obtain t where "lower db (c # s) = c # t" by blast
  moreover have "\<not> isspace 110" by (simp add: isspace_def)
  ultimately show ?thesis using c city by (auto simp: py_def)
qed

lemma lower_trailing_space:
  assumes "city \<noteq> []" "isspace (last city)"
  shows "lower db city \<noteq> py ''new york''"
proof -
  from assms(1) have city: "city = butlast city @ [last city]" by simp
  from lower_snoc_space [OF assms(2)] obtain t where t: "lower db (butlast city @ [last city]) = t @ [last city]" by blast
  have "\<not> isspace 107" by (simp add: isspace_def)
  show ?thesis
  proof
    assume "lower db city = py ''new york''"
    with t city have "t @ [last city] = [110,101,119,32,121,111,114] @ [107]" by (simp add: py_def)
    then have "last city = 107" by (simp only: append1_eq_conv)
    with assms(2) \<open>\<not> isspace 107\<close> show False by simp
  qed
qed

section \<open>Auxiliary facts about the agent set-up and the console loop\<close>

lemma strip_new_york_padded:
  "strip (py '' new york '') = py ''new york''" "strip (py ''new york '') = py ''new york''"
  by (simp_all add: strip_def isspace_def py_def)

lemma exit_requested_padded: "exit_requested db (py '' exit '')"
  by (simp add: exit_requested_def strip_def isspace_def lower_def lower_at_def ascii_lower_def py_def)

lemma not_exit_hello: "\<not> exit_requested db (py ''hello'')"
  by (simp add: exit_requested_def strip_def isspace_def lower_def lower_at_def ascii_lower_def py_def)


lemma exit_exit: "exit_requested db (py ''exit'')"
  by (simp add: exit_requested_def strip_def isspace_def lower_def lower_at_def ascii_lower_def py_def)

lemma create_agent_model:
  "create_flight_search_agent environ from_server = Inr (agent, stack) \<Longrightarrow>
   model agent = getenv_default environ (py ''GEMINI_MODEL'') (py ''gemini-2.5-pro-exp-03-25'')"
  by (auto simp: create_flight_search_agent_def Let_def split: sum.splits prod.splits)

lemma emit_apply: "emit tr r w = ((tr, r), w)"
  by (simp add: emit_def)

lemma seq_ok:
  "a w = ((tr, None), w') \<Longrightarrow>
   seq a b w = ((tr @ fst (fst (b w')), snd (fst (b w'))), snd (b w'))"
  by (simp add: seq_def split: prod.splits)

lemma seq_raise: "a w = ((tr, Some e), w') \<Longrightarrow> seq a b w = ((tr, Some e), w')"
  by (simp add: seq_def)

lemma seq_emit:
  "seq (emit tr None) b w = ((tr @ fst (fst (b w)), snd (fst (b w))), snd (b w))"
  by (simp add: seq_def emit_def split: prod.splits)





lemma run_and_print_print_raises:
  assumes "runner w (session_id sess) (user_id sess) msg = (events, raised, w')"
    and "print_events stdout events w' = ((tr, Some e), w'')"
  shows "run_and_print stdout runner sess msg w =
     ((Run (session_id sess) (user_id sess) msg # tr, Some e), w'')"
  using assms(1)
    seq_raise [where a = "print_events stdout events" and b = "emit [] raised", OF assms(2)]
  by (simp add: run_and_print_def seq_emit)

lemma run_and_print_runner_raises:
  assumes "runner w (session_id sess) (user_id sess) msg = (events, Some e, w')"
    and "print_events stdout events w' = ((tr, None), w'')"
  shows "run_and_print stdout runner sess msg w =
     ((Run (session_id sess) (user_id sess) msg # tr, Some e), w'')"
  using assms(1)
    seq_ok [where a = "print_events stdout events" and b = "emit [] (Some e)", OF assms(2)]
  by (simp add: run_and_print_def seq_emit emit_apply)

lemma main_loop_exit:
  "exit_requested db line \<Longrightarrow>
   main_loop db stdout runner sess (Inr line # rest) w = (([Input (py ''User: '')], None), w)"
  by (simp add: seq_emit emit_apply)

lemma main_loop_step_ok:
  assumes "\<not> exit_requested db line"
    and "run_and_print stdout runner sess \<lparr>role = py ''user'', parts = [line]\<rparr> w = ((tr, None), w')"
  shows "main_loop db stdout runner sess (Inr line # rest) w =
     ((Input (py ''User: '') # tr @ fst (fst (main_loop db stdout runner sess rest w')),
       snd (fst (main_loop db stdout runner sess rest w'))),
      snd (main_loop db stdout runner sess rest w'))"
  using assms(1)
    seq_ok [where a = "run_and_print stdout runner sess \<lparr>role = py ''user'', parts = [line]\<rparr>"
      and b = "main_loop db stdout runner sess rest", OF assms(2)]
  by (simp add: seq_emit)

lemma main_loop_step_raise:
  assumes "\<not> exit_requested db line"
    and "run_and_print stdout runner sess \<lparr>role = py ''user'', parts = [line]\<rparr> w = ((tr, Some e), w')"
  shows "main_loop db stdout runner sess (Inr line # rest) w =
     ((Input (py ''User: '') # tr, Some e), w')"
  using assms(1)
    seq_raise [where a = "run_and_print stdout runner sess \<lparr>role = py ''user'', parts = [line]\<rparr>"
      and b = "main_loop db stdout runner sess rest", OF assms(2)]
  by (simp add: seq_emit)

lemma Aclose_not_printed: "Aclose \<notin> set (fst (fst (print_events stdout events w)))"
proof (induction events arbitrary: w)
  case Nil
  show ?case by (simp add: emit_def)
next
  case (Cons evt events)
  obtain r wa where p: "stdout w evt = (r, wa)" by (cases "stdout w evt")
  show ?case
    using p Cons [of wa]
    by (cases r) (auto simp: seq_def print_def split: prod.splits)
qed

lemma Aclose_not_run: "Aclose \<notin> set (fst (fst (run_and_print stdout runner sess msg w)))"
proof -
  obtain events raised wa where r: "runner w (session_id sess) (user_id sess) msg = (events, raised, wa)"
    by (cases "runner w (session_id sess) (user_id sess) msg")
  obtain tr res wb where p: "print_events stdout events wa = ((tr, res), wb)"
    by (cases "print_events stdout events wa") auto
  from Aclose_not_printed [of stdout events wa] p have "Aclose \<notin> set tr" by simp
  with r p show ?thesis
    by (cases res) (simp_all add: run_and_print_def seq_def emit_def)
qed

lemma Aclose_not_in_main_loop:
  "Aclose \<notin> set (fst (fst (main_loop db stdout runner sess stdin w)))"
proof (induction stdin arbitrary: w)
  case Nil
  show ?case by (simp add: emit_def)
next
  case (Cons x rest)
  show ?case
  proof (cases x)
    case (Inl e)
    then show ?thesis by (simp add: emit_def)
  next
    case (Inr line)
    show ?thesis
    proof (cases "exit_requested db line")
      case True
      with Inr show ?thesis by (simp del: main_loop.simps add: main_loop_exit)
    next
      case False
      obtain tr res wa where
        s: "run_and_print stdout runner sess \<lparr>role = py ''user'', parts = [line]\<rparr> w = ((tr, res), wa)"
        by (cases "run_and_print stdout runner sess \<lparr>role = py ''user'', parts = [line]\<rparr> w") auto
      from Aclose_not_run [of stdout runner sess "\<lparr>role = py ''user'', parts = [line]\<rparr>" w] s
      have tr: "Aclose \<notin> set tr" by simp
      show ?thesis
      proof (cases res)
        case None
        with main_loop_step_ok [OF False, of stdout runner sess w tr wa rest] s tr Cons [of wa] Inr
        show ?thesis by (simp del: main_loop.simps)
      next
        case (Some e)
        with main_loop_step_raise [OF False, of stdout runner sess w tr e wa rest] s tr Inr
        show ?thesis by (simp del: main_loop.simps)
      qed
    qed
  qed
qed

lemma main_shutdown_printed:
  assumes b: "stdout w
      (py ''Multi-Agent Flight Search App Type '' @ [0x27] @ py ''exit'' @ [0x27] @ py '' to quit.'') =
      (None, w0)"
    and l: "main_loop db stdout runner sess stdin w0 = ((ltr, lr), wa)"
    and s: "stdout wa (py ''Shutting down MCP connection...'') = (None, wb)"
  shows "fst (fst (main db stdout runner sess aclose stdin w)) =
     Print (py ''Multi-Agent Flight Search App Type '' @ [0x27] @ py ''exit'' @ [0x27] @ py '' to quit.'') #
     ltr @ [Print (py ''Shutting down MCP connection...''), Aclose] @
     (case fst (aclose wb) of
        None \<Rightarrow> [Print (py ''Shutdown complete.'')]
      | Some e \<Rightarrow> [])"
proof -
  obtain r wc where a: "aclose wb = (r, wc)" by (cases "aclose wb")
  obtain r' wd where c: "stdout wc (py ''Shutdown complete.'') = (r', wd)"
    by (cases "stdout wc (py ''Shutdown complete.'')")
  show ?thesis
    using b l s a c
    by (cases r; cases r'; cases lr)
      (simp_all add: main_def seq_def try_finally_def print_def await_aclose_def)
qed

lemma utf8_banner:
  "utf8_stdout w
     (py ''Multi-Agent Flight Search App Type '' @ [0x27] @ py ''exit'' @ [0x27] @ py '' to quit.'') =
     (None, w)"
  by (simp add: utf8_stdout_def py_def)

lemma utf8_shutting: "utf8_stdout w (py ''Shutting down MCP connection...'') = (None, w)"
  by (simp add: utf8_stdout_def py_def)

section \<open>The claims\<close>




text \<open>
  C4, as amended: \<open>say_goodbye()\<close> returns the fixed string
  \<open>"Goodbye! Have a great day."\<close> on every call whose \<open>print\<close> succeeds; when the
  \<open>print\<close> raises, the call raises that exception and returns nothing.
\<close>

theorem say_goodbye_returns_when_printed:
  "(fst (stdout w (py ''--- Tool: say_goodbye called ---'')) = None \<longrightarrow>
      fst (say_goodbye stdout w) = Inr (py ''Goodbye! Have a great day.'')) \<and>
   (fst (stdout w (py ''--- Tool: say_goodbye called ---'')) = Some e \<longrightarrow>
      fst (say_goodbye stdout w) = Inl e)"
  by (simp add: say_goodbye_def split: prod.splits option.splits)

theorem say_goodbye_returns_when_printed_witness:
  "fst (pipe_stdout 3 (py ''--- Tool: say_goodbye called ---'')) = None \<and>
   fst (say_goodbye pipe_stdout 3) = Inr (py ''Goodbye! Have a great day.'') \<and>
   fst (say_goodbye pipe_stdout 2) = Inr (py ''Goodbye! Have a great day.'')"
proof -
  have a: "fst (pipe_stdout 3 (py ''--- Tool: say_goodbye called ---'')) = None"
    "fst (pipe_stdout 2 (py ''--- Tool: say_goodbye called ---'')) = None"
    by (simp_all add: pipe_stdout_def)
  show ?thesis
    using a
      say_goodbye_returns_when_printed [where stdout = pipe_stdout and w = 3 and e = OSError]
      say_goodbye_returns_when_printed [where stdout = pipe_stdout and w = 2 and e = OSError]
    by simp
qed

text \<open>
  C4 as it was stated, on every call whatever the state, fails when standard output is a
  pipe with no reader left: the call raises \<open>OSError\<close>.
\<close>

theorem say_goodbye_closed_stdout_counterexample:
  "fst (say_goodbye pipe_stdout 0) = Inl OSError \<and>
   fst (say_goodbye pipe_stdout 0) \<noteq> Inr (py ''Goodbye! Have a great day.'')"
  by (simp add: say_goodbye_def pipe_stdout_def)

text \<open>
  C1: for every string whose lowercased form is \<open>"new york"\<close>, \<open>get_weather\<close> returns a
  dict whose status is \<open>"success"\<close> and whose report is one fixed string; \<open>"New York"\<close>
  and \<open>"new york"\<close> are such inputs and get the same report.
\<close>

theorem get_weather_new_york:
  "(lower db city = py ''new york'' \<longrightarrow>
      map_of (get_weather db city) (py ''status'') = Some (py ''success'') \<and>
      map_of (get_weather db city) (py ''report'') =
        Some (py ''The weather in New York is sunny at 25'' @ [0xC2, 0xB0] @ py ''C.'')) \<and>
   map_of (get_weather db (py ''New York'')) (py ''status'') = Some (py ''success'') \<and>
   map_of (get_weather db (py ''new york'')) (py ''status'') = Some (py ''success'') \<and>
   map_of (get_weather db (py ''New York'')) (py ''report'') =
     map_of (get_weather db (py ''new york'')) (py ''report'')"
  by (simp add: get_weather_def lower_ascii_New_York lower_ascii_new_york) (simp add: py_def)

theorem get_weather_new_york_witness:
  "lower kelvin_casing (py ''NEW YOR'' @ [0x212A]) = py ''new york'' \<and>
   map_of (get_weather kelvin_casing (py ''NEW YOR'' @ [0x212A])) (py ''status'') = Some (py ''success'') \<and>
   map_of (get_weather kelvin_casing (py ''NEW YOR'' @ [0x212A])) (py ''report'') =
     Some (py ''The weather in New York is sunny at 25'' @ [0xC2, 0xB0] @ py ''C.'')"
proof -
  have h: "lower kelvin_casing (py ''NEW YOR'' @ [0x212A]) = py ''new york''"
    by (simp add: lower_def lower_at_def ascii_lower_def isspace_def kelvin_casing_def py_def)
  show ?thesis
    using h get_weather_new_york [of kelvin_casing "py ''NEW YOR'' @ [0x212A]"] by blast
qed

text \<open>
  C2: for every string whose lowercased form is not \<open>"new york"\<close>, \<open>get_weather\<close> returns
  a dict whose status is \<open>"error"\<close>, never \<open>"success"\<close>, and whose error message contains
  the city; and the error status comes from no other input.
\<close>

theorem get_weather_error_branch:
  "(lower db city \<noteq> py ''new york'' \<longrightarrow>
      map_of (get_weather db city) (py ''status'') = Some (py ''error'') \<and>
      map_of (get_weather db city) (py ''status'') \<noteq> Some (py ''success'') \<and>
      (\<exists>pre post. map_of (get_weather db city) (py ''error_message'') = Some (pre @ city @ post))) \<and>
   (map_of (get_weather db city) (py ''status'') = Some (py ''error'') \<longrightarrow>
      lower db city \<noteq> py ''new york'')"
proof -
  have ne: "py ''error'' \<noteq> py ''success''" "py ''success'' \<noteq> py ''error''"
    by (simp_all add: py_def)
  have keys: "py ''error_message'' \<noteq> py ''status''"
    by (simp add: py_def)
  have "\<exists>pre post. py ''Weather for '' @ [0x27] @ city @ [0x27] @ py '' not available.'' = pre @ city @ post"
    by (rule exI [of _ "py ''Weather for '' @ [0x27]"], rule exI [of _ "[0x27] @ py '' not available.''"]) simp
  then show ?thesis
    by (simp add: get_weather_def ne keys)
qed

theorem get_weather_error_branch_witness:
  "lower no_casing (py ''Paris'') \<noteq> py ''new york'' \<and>
   map_of (get_weather no_casing (py ''Paris'')) (py ''status'') = Some (py ''error'') \<and>
   map_of (get_weather no_casing (py ''Paris'')) (py ''status'') \<noteq> Some (py ''success'') \<and>
   (\<exists>pre post. map_of (get_weather no_casing (py ''Paris'')) (py ''error_message'') =
      Some (pre @ py ''Paris'' @ post))"
proof -
  have h: "lower no_casing (py ''Paris'') \<noteq> py ''new york''"
    by (simp add: lower_def lower_at_def ascii_lower_def py_def)
  show ?thesis
    using h get_weather_error_branch [of no_casing "py ''Paris''"] by blast
qed

text \<open>
  C8: for every input, the status of the returned dict is \<open>"success"\<close> or \<open>"error"\<close>;
  with \<open>"success"\<close> the dict has the key \<open>"report"\<close> and not \<open>"error_message"\<close>, with
  \<open>"error"\<close> it has \<open>"error_message"\<close> and not \<open>"report"\<close>.
\<close>

theorem get_weather_dict_shape:
  "(let d = map_of (get_weather db city) in
      (d (py ''status'') = Some (py ''success'') \<or> d (py ''status'') = Some (py ''error'')) \<and>
      (d (py ''status'') = Some (py ''success'') \<longrightarrow>
         py ''report'' \<in> dom d \<and> py ''error_message'' \<notin> dom d) \<and>
      (d (py ''status'') = Some (py ''error'') \<longrightarrow>
         py ''error_message'' \<in> dom d \<and> py ''report'' \<notin> dom d))"
proof -
  have ne: "py ''error'' \<noteq> py ''success''" "py ''success'' \<noteq> py ''error''"
    by (simp_all add: py_def)
  have keys: "py ''error_message'' \<noteq> py ''status''" "py ''report'' \<noteq> py ''status''"
    "py ''error_message'' \<noteq> py ''report''" "py ''report'' \<noteq> py ''error_message''"
    by (simp_all add: py_def)
  show ?thesis
    by (simp add: get_weather_def Let_def dom_def ne keys)
qed

theorem get_weather_dict_shape_witness:
  "map_of (get_weather no_casing (py ''new york'')) (py ''status'') = Some (py ''success'') \<and>
   py ''report'' \<in> dom (map_of (get_weather no_casing (py ''new york''))) \<and>
   py ''error_message'' \<notin> dom (map_of (get_weather no_casing (py ''new york''))) \<and>
   map_of (get_weather no_casing (py ''Oslo'')) (py ''status'') = Some (py ''error'') \<and>
   py ''error_message'' \<in> dom (map_of (get_weather no_casing (py ''Oslo''))) \<and>
   py ''report'' \<notin> dom (map_of (get_weather no_casing (py ''Oslo'')))"
proof -
  have ne: "py ''error'' \<noteq> py ''success''" "py ''success'' \<noteq> py ''error''"
    by (simp_all add: py_def)
  have a: "map_of (get_weather no_casing (py ''new york'')) (py ''status'') = Some (py ''success'')"
    by (simp add: get_weather_def lower_ascii_new_york)
  have "lower no_casing (py ''Oslo'') \<noteq> py ''new york''"
    by (simp add: lower_def lower_at_def ascii_lower_def py_def)
  then have b: "map_of (get_weather no_casing (py ''Oslo'')) (py ''status'') = Some (py ''error'')"
    by (simp add: get_weather_def)
  show ?thesis
    using a b ne
      get_weather_dict_shape [of no_casing "py ''new york''"]
      get_weather_dict_shape [of no_casing "py ''Oslo''"]
    by (simp add: Let_def)
qed

text \<open>
  C10: for every input that does not match, the error message is \<open>"Weather for '"\<close>, the
  city as it was given (its own casing and spacing, not the lowercased form of the
  comparison), and \<open>"' not available."\<close>.
\<close>

theorem get_weather_message_verbatim:
  "lower db city \<noteq> py ''new york'' \<Longrightarrow>
   map_of (get_weather db city) (py ''error_message'') =
     Some (py ''Weather for '' @ [0x27] @ city @ [0x27] @ py '' not available.'')"
proof -
  assume "lower db city \<noteq> py ''new york''"
  moreover have "py ''error_message'' \<noteq> py ''status''"
    by (simp add: py_def)
  ultimately show ?thesis
    by (simp add: get_weather_def)
qed

theorem get_weather_message_verbatim_witness:
  "lower no_casing (py '' PaRis '') = py '' paris '' \<and>
   map_of (get_weather no_casing (py '' PaRis '')) (py ''error_message'') =
     Some (py ''Weather for '' @ [0x27] @ py '' PaRis '' @ [0x27] @ py '' not available.'') \<and>
   map_of (get_weather no_casing (py '' PaRis '')) (py ''error_message'') \<noteq>
     Some (py ''Weather for '' @ [0x27] @ py '' paris '' @ [0x27] @ py '' not available.'')"
proof -
  have l: "lower no_casing (py '' PaRis '') = py '' paris ''"
    by (simp add: lower_def lower_at_def ascii_lower_def py_def)
  have h: "lower no_casing (py '' PaRis '') \<noteq> py ''new york''"
    by (simp add: l) (simp add: py_def)
  have d: "py '' PaRis '' \<noteq> py '' paris ''"
    by (simp add: py_def)
  show ?thesis
    using l d get_weather_message_verbatim [OF h] by simp
qed

text \<open>
  C9: \<open>get_weather\<close> folds letter case only and never trims: every city with a leading
  or a trailing whitespace character gets the error status. \<open>" new york "\<close> and
  \<open>"new york "\<close> do, although trimmed and lowercased they are \<open>"new york"\<close>; the
  console's exit check does trim, so it accepts \<open>" exit "\<close>.
\<close>

theorem get_weather_keeps_whitespace:
  "(city \<noteq> [] \<and> (isspace (hd city) \<or> isspace (last city)) \<longrightarrow>
      map_of (get_weather db city) (py ''status'') = Some (py ''error'')) \<and>
   map_of (get_weather db (py '' new york '')) (py ''status'') = Some (py ''error'') \<and>
   map_of (get_weather db (py ''new york '')) (py ''status'') = Some (py ''error'') \<and>
   lower db (strip (py '' new york '')) = py ''new york'' \<and>
   lower db (strip (py ''new york '')) = py ''new york'' \<and>
   exit_requested db (py '' exit '')"
proof -
  have general: "map_of (get_weather db s) (py ''status'') = Some (py ''error'')"
    if "s \<noteq> []" "isspace (hd s) \<or> isspace (last s)" for s
  proof -
    from that have "lower db s \<noteq> py ''new york''"
      using lower_leading_space lower_trailing_space by blast
    then show ?thesis by (simp add: get_weather_def)
  qed
  have a: "map_of (get_weather db (py '' new york '')) (py ''status'') = Some (py ''error'')"
    by (rule general) (simp_all add: py_def isspace_def)
  have b: "map_of (get_weather db (py ''new york '')) (py ''status'') = Some (py ''error'')"
    by (rule general) (simp_all add: py_def isspace_def)
  show ?thesis
    using general [of city] a b
    by (simp add: strip_new_york_padded lower_ascii_new_york exit_requested_padded)
qed

theorem get_weather_keeps_whitespace_witness:
  "py ''New York'' @ [0x3000] \<noteq> [] \<and> isspace (last (py ''New York'' @ [0x3000])) \<and>
   lower kelvin_casing (strip (py ''New York'' @ [0x3000])) = py ''new york'' \<and>
   map_of (get_weather kelvin_casing (py ''New York'' @ [0x3000])) (py ''status'') = Some (py ''error'')"
proof -
  have h: "py ''New York'' @ [0x3000] \<noteq> [] \<and> isspace (last (py ''New York'' @ [0x3000]))"
    by (simp add: isspace_def)
  have s: "strip (py ''New York'' @ [0x3000]) = py ''New York''"
    by (simp add: strip_def isspace_def py_def)
  show ?thesis
    using h s get_weather_keeps_whitespace [of "py ''New York'' @ [0x3000]" kelvin_casing]
    by (simp add: lower_ascii_New_York)
qed




text \<open>
  C6: the model identifier of the flight-search agent is the value of the environment
  variable \<open>GEMINI_MODEL\<close> when it is set and \<open>"gemini-2.5-pro-exp-03-25"\<close> when it is
  not; two set-ups whose environments agree on that variable get the same identifier,
  whatever else differs.
\<close>

theorem flight_agent_model_from_environment:
  "(environ (py ''GEMINI_MODEL'') = Some v \<and>
    create_flight_search_agent environ from_server = Inr (agent, stack) \<longrightarrow>
      model agent = v) \<and>
   (environ (py ''GEMINI_MODEL'') = None \<and>
    create_flight_search_agent environ from_server = Inr (agent, stack) \<longrightarrow>
      model agent = py ''gemini-2.5-pro-exp-03-25'') \<and>
   (environ (py ''GEMINI_MODEL'') = environ' (py ''GEMINI_MODEL'') \<and>
    create_flight_search_agent environ from_server = Inr (agent, stack) \<and>
    create_flight_search_agent environ' from_server' = Inr (agent', stack') \<longrightarrow>
      model agent' = model agent)"
proof -
  have "model agent = getenv_default environ (py ''GEMINI_MODEL'') (py ''gemini-2.5-pro-exp-03-25'')"
    if "create_flight_search_agent environ from_server = Inr (agent, stack)"
    using that by (rule create_agent_model)
  moreover have "model agent' = getenv_default environ' (py ''GEMINI_MODEL'') (py ''gemini-2.5-pro-exp-03-25'')"
    if "create_flight_search_agent environ' from_server' = Inr (agent', stack')"
    using that by (rule create_agent_model)
  ultimately show ?thesis
    by (auto simp: getenv_default_def)
qed

theorem flight_agent_model_from_environment_witness:
  "(\<exists>agent. create_flight_search_agent [py ''GEMINI_MODEL'' \<mapsto> py ''gemini-2.0-flash'']
        (\<lambda>p. Inr ([py ''search_flights''], ())) = Inr (agent, ()) \<and>
      model agent = py ''gemini-2.0-flash'') \<and>
   (\<exists>agent. create_flight_search_agent [py ''SERP_API_KEY'' \<mapsto> py ''k'']
        (\<lambda>p. Inr ([py ''search_flights''], ())) = Inr (agent, ()) \<and>
      model agent = py ''gemini-2.5-pro-exp-03-25'')"
proof -
  let ?fs = "\<lambda>p :: server_params. (Inr ([py ''search_flights''], ()) :: exn + pystr list \<times> unit)"
  let ?e1 = "[py ''GEMINI_MODEL'' \<mapsto> py ''gemini-2.0-flash'']"
  let ?e2 = "[py ''SERP_API_KEY'' \<mapsto> py ''k'']"
  obtain a1 where a1: "create_flight_search_agent ?e1 ?fs = Inr (a1, ())"
    by (simp add: create_flight_search_agent_def Let_def)
  obtain a2 where a2: "create_flight_search_agent ?e2 ?fs = Inr (a2, ())"
    by (simp add: create_flight_search_agent_def Let_def)
  have k: "py ''GEMINI_MODEL'' \<noteq> py ''SERP_API_KEY''"
    by (simp add: py_def)
  have "model a1 = py ''gemini-2.0-flash''"
    using a1 flight_agent_model_from_environment
      [where environ = ?e1 and v = "py ''gemini-2.0-flash''" and from_server = ?fs
         and agent = a1 and stack = "()" and environ' = ?e1 and from_server' = ?fs
         and agent' = a1 and stack' = "()"]
    by simp
  moreover have "model a2 = py ''gemini-2.5-pro-exp-03-25''"
    using a2 k flight_agent_model_from_environment
      [where environ = ?e2 and v = "[]" and from_server = ?fs and agent = a2 and stack = "()"
         and environ' = ?e2 and from_server' = ?fs and agent' = a2 and stack' = "()"]
    by simp
  ultimately show ?thesis using a1 a2 by blast
qed

text \<open>
  C7, as amended: when the loop was entered (the banner was printed) and has ended, by
  \<open>break\<close> or by an exception, and the \<open>print\<close> of the shutdown message that stands
  before the teardown in the \<open>finally\<close> block succeeds, the program's trace is the banner,
  the loop's effects, the shutdown message and then the teardown of the exit stack; the
  loop itself never runs the teardown, so it happens exactly once, after the loop.
\<close>

theorem teardown_after_shutdown_message:
  "stdout w
     (py ''Multi-Agent Flight Search App Type '' @ [0x27] @ py ''exit'' @ [0x27] @ py '' to quit.'') =
     (None, w0) \<and>
   main_loop db stdout runner sess stdin w0 = ((loop_trace, loop_end), w') \<and>
   stdout w' (py ''Shutting down MCP connection...'') = (None, w'') \<longrightarrow>
     fst (fst (main db stdout runner sess aclose stdin w)) =
       Print (py ''Multi-Agent Flight Search App Type '' @ [0x27] @ py ''exit'' @ [0x27] @ py '' to quit.'') #
       loop_trace @ [Print (py ''Shutting down MCP connection...''), Aclose] @
       (case fst (aclose w'') of
          None \<Rightarrow> [Print (py ''Shutdown complete.'')]
        | Some e \<Rightarrow> []) \<and>
     count_list loop_trace Aclose = 0 \<and>
     count_list (fst (fst (main db stdout runner sess aclose stdin w))) Aclose = 1"
proof (intro impI, elim conjE)
  assume b: "stdout w
     (py ''Multi-Agent Flight Search App Type '' @ [0x27] @ py ''exit'' @ [0x27] @ py '' to quit.'') =
     (None, w0)"
    and l: "main_loop db stdout runner sess stdin w0 = ((loop_trace, loop_end), w')"
    and s: "stdout w' (py ''Shutting down MCP connection...'') = (None, w'')"
  note shape = main_shutdown_printed [where aclose = aclose, OF b l s]
  from Aclose_not_in_main_loop [of db stdout runner sess stdin w0] l
  have loop: "count_list loop_trace Aclose = 0"
    by (simp add: count_list_0_iff)
  have "count_list (fst (fst (main db stdout runner sess aclose stdin w))) Aclose = 1"
    unfolding shape using loop by (cases "fst (aclose w'')") simp_all
  with shape loop show
    "fst (fst (main db stdout runner sess aclose stdin w)) =
       Print (py ''Multi-Agent Flight Search App Type '' @ [0x27] @ py ''exit'' @ [0x27] @ py '' to quit.'') #
       loop_trace @ [Print (py ''Shutting down MCP connection...''), Aclose] @
       (case fst (aclose w'') of
          None \<Rightarrow> [Print (py ''Shutdown complete.'')]
        | Some e \<Rightarrow> []) \<and>
     count_list loop_trace Aclose = 0 \<and>
     count_list (fst (fst (main db stdout runner sess aclose stdin w))) Aclose = 1"
    by simp
qed

theorem teardown_after_shutdown_message_witness:
  "snd (fst (main_loop no_casing utf8_stdout echo_runner
          \<lparr>session_id = py ''s1'', user_id = py ''user_1''\<rparr> [Inr (py ''exit'')] (0::nat))) = None \<and>
   count_list (fst (fst (main no_casing utf8_stdout echo_runner
          \<lparr>session_id = py ''s1'', user_id = py ''user_1''\<rparr> aclose_ok [Inr (py ''exit'')] (0::nat))))
      Aclose = 1 \<and>
   snd (fst (main_loop no_casing utf8_stdout failing_runner
          \<lparr>session_id = py ''s1'', user_id = py ''user_1''\<rparr>
          [Inr (py ''hello''), Inr (py ''exit'')] (0::nat))) =
      Some (OtherError (py ''model unavailable'')) \<and>
   count_list (fst (fst (main no_casing utf8_stdout failing_runner
          \<lparr>session_id = py ''s1'', user_id = py ''user_1''\<rparr> aclose_ok
          [Inr (py ''hello''), Inr (py ''exit'')] (0::nat))))
      Aclose = 1 \<and>
   snd (fst (main_loop no_casing utf8_stdout echo_runner
          \<lparr>session_id = py ''s1'', user_id = py ''user_1''\<rparr> [] (0::nat))) = Some EOFError \<and>
   count_list (fst (fst (main no_casing utf8_stdout echo_runner
          \<lparr>session_id = py ''s1'', user_id = py ''user_1''\<rparr> aclose_ok [] (0::nat))))
      Aclose = 1"
proof -
  let ?sess = "\<lparr>session_id = py ''s1'', user_id = py ''user_1''\<rparr>"
  let ?msg = "\<lparr>role = py ''user'', parts = [py ''hello'']\<rparr>"
  have a: "main_loop no_casing utf8_stdout echo_runner ?sess [Inr (py ''exit'')] (0::nat) =
      (([Input (py ''User: '')], None), 0)"
    by (rule main_loop_exit) (rule exit_exit)
  have r: "failing_runner (0::nat) (session_id ?sess) (user_id ?sess) ?msg =
      ([], Some (OtherError (py ''model unavailable'')), 0)"
    by (simp add: failing_runner_def)
  have p: "print_events utf8_stdout [] (0::nat) = (([], None), 0)"
    by (simp add: emit_def)
  have b: "main_loop no_casing utf8_stdout failing_runner ?sess [Inr (py ''hello''), Inr (py ''exit'')] (0::nat) =
      (([Input (py ''User: ''), Run (py ''s1'') (py ''user_1'') ?msg],
        Some (OtherError (py ''model unavailable''))), 0)"
    using main_loop_step_raise [OF not_exit_hello
        run_and_print_runner_raises [where runner = failing_runner and w = "0::nat", OF r p],
        of no_casing "[Inr (py ''exit'')]"]
    by (simp del: main_loop.simps)
  have c: "main_loop no_casing utf8_stdout echo_runner ?sess [] (0::nat) =
      (([Input (py ''User: '')], Some EOFError), 0)"
    by (simp add: emit_def)
  show ?thesis
    using a b c utf8_banner [of "0::nat"] utf8_shutting [of "0::nat"]
      teardown_after_shutdown_message [where stdout = utf8_stdout and w = "0::nat" and w0 = 0
        and db = no_casing and runner = echo_runner and sess = ?sess and stdin = "[Inr (py ''exit'')]"
        and loop_trace = "[Input (py ''User: '')]" and loop_end = None and w' = 0 and w'' = 0
        and aclose = aclose_ok]
      teardown_after_shutdown_message [where stdout = utf8_stdout and w = "0::nat" and w0 = 0
        and db = no_casing and runner = failing_runner and sess = ?sess
        and stdin = "[Inr (py ''hello''), Inr (py ''exit'')]"
        and loop_trace = "[Input (py ''User: ''), Run (py ''s1'') (py ''user_1'') ?msg]"
        and loop_end = "Some (OtherError (py ''model unavailable''))" and w' = 0 and w'' = 0
        and aclose = aclose_ok]
      teardown_after_shutdown_message [where stdout = utf8_stdout and w = "0::nat" and w0 = 0
        and db = no_casing and runner = echo_runner and sess = ?sess and stdin = "[]"
        and loop_trace = "[Input (py ''User: '')]" and loop_end = "Some EOFError" and w' = 0 and w'' = 0
        and aclose = aclose_ok]
    by (simp del: main_loop.simps)
qed

text \<open>
  C7 as it was stated, that no path leaves the loop without reaching the teardown, fails
  when standard output breaks after the banner: the \<open>print\<close> of the event raises inside
  the loop, the \<open>print\<close> of the shutdown message raises in the \<open>finally\<close> block, and the
  teardown behind it is never reached.
\<close>

theorem teardown_skipped_counterexample:
  "main no_casing pipe_stdout echo_runner \<lparr>session_id = py ''s1'', user_id = py ''user_1''\<rparr>
       aclose_ok [Inr (py ''hello'')] 1 =
     (([Print (py ''Multi-Agent Flight Search App Type '' @ [0x27] @ py ''exit'' @ [0x27] @ py '' to quit.''),
        Input (py ''User: ''),
        Run (py ''s1'') (py ''user_1'') \<lparr>role = py ''user'', parts = [py ''hello'']\<rparr>,
        Print (py ''hello''),
        Print (py ''Shutting down MCP connection...'')], Some OSError), 0) \<and>
   count_list (fst (fst (main no_casing pipe_stdout echo_runner
       \<lparr>session_id = py ''s1'', user_id = py ''user_1''\<rparr> aclose_ok [Inr (py ''hello'')] 1))) Aclose = 0"
proof -
  let ?sess = "\<lparr>session_id = py ''s1'', user_id = py ''user_1''\<rparr>"
  let ?msg = "\<lparr>role = py ''user'', parts = [py ''hello'']\<rparr>"
  have r: "echo_runner (0::nat) (session_id ?sess) (user_id ?sess) ?msg = ([py ''hello''], None, 0)"
    by (simp add: echo_runner_def)
  have q: "print_events pipe_stdout [py ''hello''] 0 = (([Print (py ''hello'')], Some OSError), 0)"
    by (simp add: seq_def print_def pipe_stdout_def)
  have l: "main_loop no_casing pipe_stdout echo_runner ?sess [Inr (py ''hello'')] 0 =
      (([Input (py ''User: ''), Run (py ''s1'') (py ''user_1'') ?msg, Print (py ''hello'')],
        Some OSError), 0)"
    using main_loop_step_raise [OF not_exit_hello
        run_and_print_print_raises [where runner = echo_runner and w = "0::nat", OF r q],
        of no_casing "[]"]
    by (simp del: main_loop.simps)
  have m: "main no_casing pipe_stdout echo_runner ?sess aclose_ok [Inr (py ''hello'')] 1 =
     (([Print (py ''Multi-Agent Flight Search App Type '' @ [0x27] @ py ''exit'' @ [0x27] @ py '' to quit.''),
        Input (py ''User: ''),
        Run (py ''s1'') (py ''user_1'') ?msg,
        Print (py ''hello''),
        Print (py ''Shutting down MCP connection...'')], Some OSError), 0)"
    unfolding main_def
    by (simp del: main_loop.simps add: l seq_def try_finally_def print_def pipe_stdout_def)
  show ?thesis
    unfolding m by simp
qed

end
